theory Spec2Isabelle
  imports Main
begin

section \<open>The gamescope reaper: process-tree scan, tree kill, supervision\<close>

text \<open>
  A shallow embedding of \<^verbatim>\<open>src/Apps/gamescopereaper.cpp\<close>. C++ exceptions that nothing in
  the file catches are values of type \<open>exn\<close>; everything the program does to the outside
  world is appended to a trace of events.
\<close>

subsection \<open>Library calls used by the scanner\<close>

type_synonym pid_t = int

datatype exn = OutOfRange | InvalidArgument

text \<open>\<^verbatim>\<open>isspace\<close> and \<^verbatim>\<open>isdigit\<close> in the C locale.\<close>

definition isspace :: "char \<Rightarrow> bool" where
  "isspace c = (c = CHR '' '' \<or> c = CHR 0x09 \<or> c = CHR 0x0A \<or> c = CHR 0x0B
                \<or> c = CHR 0x0C \<or> c = CHR 0x0D)"

definition isdigit :: "char \<Rightarrow> bool" where
  "isdigit c = (48 \<le> (of_char c :: nat) \<and> (of_char c :: nat) \<le> 57)"

definition digitVal :: "char \<Rightarrow> int" where
  "digitVal c = int (of_char c) - 48"

text \<open>
  The conversion shared by \<^verbatim>\<open>atoi\<close> and \<^verbatim>\<open>std::stoi\<close> (both are \<^verbatim>\<open>strtol\<close> in base 10):
  leading white space, an optional sign, then the longest run of digits; whatever follows
  the digits is ignored. \<open>None\<close> when there is no digit to convert.
\<close>

definition strtol10 :: "string \<Rightarrow> int option" where
  "strtol10 s =
     (let s1 = dropWhile isspace s;
          neg = (s1 \<noteq> [] \<and> hd s1 = CHR ''-'');
          s2 = (if s1 \<noteq> [] \<and> (hd s1 = CHR ''-'' \<or> hd s1 = CHR ''+'') then tl s1 else s1);
          ds = takeWhile isdigit s2;
          v = foldl (\<lambda>a c. 10 * a + digitVal c) 0 ds
      in if ds = [] then None else Some (if neg then - v else v))"

text \<open>
  \<^verbatim>\<open>atoi\<close>: 0 when nothing converts. glibc computes \<^verbatim>\<open>(int) strtol (s, NULL, 10)\<close>: the value
  saturates at the range of \<^verbatim>\<open>long\<close> and is then cut to 32 bits.
\<close>

definition atoi :: "string \<Rightarrow> int" where
  "atoi s =
     (case strtol10 s of
        None \<Rightarrow> 0
      | Some v \<Rightarrow>
          (let l = max (- (2 ^ 63)) (min (2 ^ 63 - 1) v)
           in (l + 2 ^ 31) mod 2 ^ 32 - 2 ^ 31))"

text \<open>
  \<^verbatim>\<open>std::stoi\<close>: throws \<^verbatim>\<open>std::invalid_argument\<close> when nothing converts and
  \<^verbatim>\<open>std::out_of_range\<close> when the value does not fit an \<^verbatim>\<open>int\<close>.
\<close>

definition stoi :: "string \<Rightarrow> exn + int" where
  "stoi s =
     (case strtol10 s of
        None \<Rightarrow> Inl InvalidArgument
      | Some v \<Rightarrow> if v < - (2 ^ 31) \<or> 2 ^ 31 - 1 < v then Inl OutOfRange else Inr v)"

text \<open>
  \<^verbatim>\<open>std::string::find (c, pos)\<close>: the index of the first \<open>c\<close> at or after \<open>pos\<close>;
  \<open>None\<close> is \<^verbatim>\<open>npos\<close>. A search that starts at \<^verbatim>\<open>npos\<close> finds nothing.
\<close>

fun find_aux :: "char \<Rightarrow> string \<Rightarrow> nat \<Rightarrow> nat option" where
  "find_aux c [] i = None"
| "find_aux c (x # xs) i = (if x = c then Some i else find_aux c xs (Suc i))"

definition find_char :: "string \<Rightarrow> char \<Rightarrow> nat option \<Rightarrow> nat option" where
  "find_char s c pos = (case pos of None \<Rightarrow> None | Some p \<Rightarrow> find_aux c (drop p s) p)"

text \<open>\<^verbatim>\<open>std::string::substr (pos)\<close> throws \<^verbatim>\<open>std::out_of_range\<close> when \<open>pos > size ()\<close>.\<close>

definition substr :: "string \<Rightarrow> nat \<Rightarrow> exn + string" where
  "substr s pos = (if length s < pos then Inl OutOfRange else Inr (drop pos s))"

text \<open>\<^verbatim>\<open>std::getline\<close>: the text before the first newline (empty when nothing can be read).\<close>

definition getline :: "string \<Rightarrow> string" where
  "getline content = takeWhile (\<lambda>c. c \<noteq> CHR 0x0A) content"

subsection \<open>GetChildPIDs\<close>

text \<open>
  One entry of \<^verbatim>\<open>/proc\<close> as \<^verbatim>\<open>readdir\<close> hands it out, with the content of the file
  \<^verbatim>\<open>/proc/<d_name>/stat\<close> (\<open>None\<close> when the file does not exist any more or may not be
  read). The directory is a list in \<^verbatim>\<open>readdir\<close> order, fixed for the duration of a call;
  \<open>None\<close> when there is no \<^verbatim>\<open>/proc\<close> to open.
\<close>

record dirent =
  d_type :: nat
  d_name :: string
  stat_file :: "string option"

type_synonym procfs = "dirent list option"

definition DT_DIR :: nat where
  "DT_DIR = 4"

text \<open>
  The loop \<^verbatim>\<open>while (iss >> token)\<close> over the rest of the stat line: the third token is
  converted by \<^verbatim>\<open>std::stoi\<close>; with fewer than three tokens \<open>ppid\<close> keeps its initial 0.
  The first argument is what is left of the stream, the second is \<open>i\<close>.
\<close>

function tokenLoop :: "string \<Rightarrow> int \<Rightarrow> exn + pid_t" where
  "tokenLoop s i =
     (let s1 = dropWhile isspace s in
      if s1 = [] then Inr 0
      else
        (let token = takeWhile (\<lambda>c. \<not> isspace c) s1;
             rest = dropWhile (\<lambda>c. \<not> isspace c) s1;
             i' = i + 1
         in if i' = 3 then stoi token else tokenLoop rest i'))"
  by pat_completeness auto
termination
proof (relation "measure (\<lambda>(s, i). length s)")
  show "wf (measure (\<lambda>(s, i). length s))" by simp
next
  fix s :: string and i :: int and s1 token rest i'
  assume s1: "s1 = dropWhile isspace s" and ne: "s1 \<noteq> []"
    and rest: "rest = dropWhile (\<lambda>c. \<not> isspace c) s1"
  from ne s1 have "\<not> isspace (hd s1)"
    by (metis hd_dropWhile)
  with ne have "length rest < length s1"
    unfolding rest by (cases s1) (auto simp: le_imp_less_Suc length_dropWhile_le)
  moreover have "length s1 \<le> length s"
    unfolding s1 by (rule length_dropWhile_le)
  ultimately show "((rest, i'), (s, i)) \<in> measure (\<lambda>(s, i). length s)"
    by simp
qed

declare tokenLoop.simps [simp del]

text \<open>
  The body of the \<^verbatim>\<open>readdir\<close> loop up to the comparison with \<open>parentPid\<close>:
  \<open>Inr None\<close> is \<^verbatim>\<open>continue\<close>, \<open>Inr (Some (pid, ppid))\<close> the two values the
  comparison uses, \<open>Inl\<close> an exception leaving the function.
\<close>

definition scanEntry :: "dirent \<Rightarrow> exn + (pid_t \<times> pid_t) option" where
  "scanEntry entry =
     (if d_type entry \<noteq> DT_DIR then Inr None
      else
        (let pid = atoi (d_name entry) in
         if pid \<le> 0 then Inr None
         else
           (case stat_file entry of
              None \<Rightarrow> Inr None
            | Some content \<Rightarrow>
                (let statLine = getline content;
                     openParen = find_char statLine (CHR ''('') (Some 0);
                     closeParen = find_char statLine (CHR '')'') openParen
                 in case closeParen of
                      None \<Rightarrow> Inr None
                    | Some cp \<Rightarrow>
                        (case substr statLine (cp + 2) of
                           Inl e \<Rightarrow> Inl e
                         | Inr after \<Rightarrow>
                             (case tokenLoop after 0 of
                                Inl e \<Rightarrow> Inl e
                              | Inr ppid \<Rightarrow> Inr (Some (pid, ppid))))))))"

text \<open>
  Line 47 needs a file descriptor for the stat file. \<open>free\<close> counts the descriptors the
  process may still open; with none left \<^verbatim>\<open>is_open\<close> is false, as for a file that cannot be
  read.
\<close>

definition openStat :: "nat \<Rightarrow> dirent \<Rightarrow> dirent" where
  "openStat free entry = (if free = 0 then entry\<lparr>stat_file := None\<rparr> else entry)"

text \<open>
  The \<^verbatim>\<open>readdir\<close> loop of one call, over the entries not yet read, with \<open>childPids\<close> as
  built so far. \<open>free\<close> is the number of descriptors free while the loop runs, the one of
  its own \<^verbatim>\<open>DIR\<close> taken already: every call keeps \<^verbatim>\<open>/proc\<close> open from line 30 to line 87,
  the stat file is closed again at line 53. The recursive call \<^verbatim>\<open>GetChildPIDs (pid)\<close> comes
  after a stat file was opened and closed, so its \<^verbatim>\<open>opendir\<close> finds a descriptor, and its
  loop runs with one descriptor less, over the same directory, from an empty vector.
  Nothing else bounds the recursion; the stack is taken to hold it.
\<close>

function readdirLoop ::
  "nat \<Rightarrow> dirent list \<Rightarrow> dirent list \<Rightarrow> pid_t \<Rightarrow> pid_t list \<Rightarrow> exn + pid_t list" where
  "readdirLoop free procDir entries parentPid childPids =
     (case entries of
        [] \<Rightarrow> Inr childPids
      | entry # rest \<Rightarrow>
          (case scanEntry (openStat free entry) of
             Inl e \<Rightarrow> Inl e
           | Inr None \<Rightarrow> readdirLoop free procDir rest parentPid childPids
           | Inr (Some (pid, ppid)) \<Rightarrow>
               if ppid = parentPid then
                 (case readdirLoop (free - 1) procDir procDir pid [] of
                    Inl e \<Rightarrow> Inl e
                  | Inr grandChildren \<Rightarrow>
                      readdirLoop free procDir rest parentPid (childPids @ [pid] @ grandChildren))
               else readdirLoop free procDir rest parentPid childPids))"
  by pat_completeness auto
termination
proof -
  have free: "0 < free" if "scanEntry (openStat free entry) = Inr (Some row)"
    for free entry and row :: "pid_t \<times> pid_t"
    using that
    by (cases "free = 0") (auto simp: openStat_def scanEntry_def Let_def split: if_splits)
  show ?thesis
    by (relation "measures [\<lambda>(free, procDir, entries, parentPid, childPids). free,
                            \<lambda>(free, procDir, entries, parentPid, childPids). length entries]")
       (auto dest: free)
qed

declare readdirLoop.simps [simp del]

datatype logline = Info string | Error string | ErrorErrno string

text \<open>
  \<^verbatim>\<open>GetChildPIDs\<close> when \<open>free\<close> descriptors are free: the lines it logs and the vector it
  returns. \<^verbatim>\<open>opendir\<close> fails when there is no \<^verbatim>\<open>/proc\<close> or no descriptor.
\<close>

definition GetChildPIDs :: "nat \<Rightarrow> procfs \<Rightarrow> pid_t \<Rightarrow> exn + logline list \<times> pid_t list" where
  "GetChildPIDs free proc parentPid =
     (case proc of
        None \<Rightarrow> Inr ([ErrorErrno ''Failed to open /proc directory.''], [])
      | Some procDir \<Rightarrow>
          if free = 0 then Inr ([ErrorErrno ''Failed to open /proc directory.''], [])
          else
            (case readdirLoop (free - 1) procDir procDir parentPid [] of
               Inl e \<Rightarrow> Inl e
             | Inr childPids \<Rightarrow> Inr ([], childPids)))"

subsection \<open>KillProcessTree\<close>

text \<open>
  What the program does to the outside world, in order: log lines, the calls of the
  \<^verbatim>\<open>Process\<close> helpers and the system calls. \<open>SpawnProcess\<close> carries the argument vector
  handed over and the value returned, \<open>Kill\<close> the target, the signal and the value
  \<^verbatim>\<open>kill\<close> returned (which the program never looks at).
\<close>

datatype event =
    Log logline
  | SetThreadName string
  | ResetSignals
  | CloseAllFds "int list"
  | Setsid
  | Sigaction int
  | BecomeSubreaper
  | SetDeathSignal int
  | SpawnProcess "string list" pid_t
  | WaitForAllChildren pid_t
  | Kill pid_t int int

text \<open>The static \<open>s_bRun\<close> and the trace of events so far.\<close>

record reaper =
  s_bRun :: bool
  trace :: "event list"

definition emit :: "event \<Rightarrow> reaper \<Rightarrow> reaper" where
  "emit ev st = st\<lparr>trace := trace st @ [ev]\<rparr>"

text \<open>
  The range-for over \<open>childPids\<close>. The first argument is the system's \<^verbatim>\<open>kill\<close>: the value
  it returns for a target and a signal, -1 for a target that has exited.
\<close>

fun killLoop :: "(pid_t \<Rightarrow> int \<Rightarrow> int) \<Rightarrow> pid_t list \<Rightarrow> int \<Rightarrow> reaper \<Rightarrow> reaper" where
  "killLoop kill [] signal st = st"
| "killLoop kill (childPid # rest) signal st =
     killLoop kill rest signal (emit (Kill childPid signal (kill childPid signal)) st)"

text \<open>
  \<open>KillProcessTree\<close> with \<open>free\<close> descriptors free: no handler around \<open>GetChildPIDs\<close>, so
  its exception leaves this function too.
\<close>

definition KillProcessTree ::
  "nat \<Rightarrow> procfs \<Rightarrow> (pid_t \<Rightarrow> int \<Rightarrow> int) \<Rightarrow> pid_t \<Rightarrow> int \<Rightarrow> reaper \<Rightarrow> exn + reaper" where
  "KillProcessTree free proc kill pid signal st =
     (case GetChildPIDs free proc pid of
        Inl e \<Rightarrow> Inl e
      | Inr (logged, childPids) \<Rightarrow>
          (let st1 = st\<lparr>trace := trace st @ map Log logged\<rparr>;
               st2 = killLoop kill childPids signal st1
           in Inr (emit (Kill pid signal (kill pid signal)) st2)))"

subsection \<open>The signal handler\<close>

definition SIGHUP :: int where "SIGHUP = 1"
definition SIGINT :: int where "SIGINT = 2"
definition SIGQUIT :: int where "SIGQUIT = 3"
definition SIGTERM :: int where "SIGTERM = 15"

definition shutdownMessage :: logline where
  "shutdownMessage = Info ''Parent of gamescopereaper was killed. Killing children.''"

text \<open>The handler, run from its first statement to its last with nothing in between.\<close>

definition reaperSignalHandler :: "int \<Rightarrow> reaper \<Rightarrow> reaper" where
  "reaperSignalHandler nSignal st =
     (if nSignal = SIGHUP \<or> nSignal = SIGINT \<or> nSignal = SIGQUIT \<or> nSignal = SIGTERM then
        (if s_bRun st then (emit (Log shutdownMessage) st)\<lparr>s_bRun := False\<rparr> else st)
      else st)"

text \<open>
  The spec's ShutdownFlag is the negation of \<open>s_bRun\<close>.
\<close>

definition ShutdownFlag :: "reaper \<Rightarrow> bool" where
  "ShutdownFlag st = (\<not> s_bRun st)"

text \<open>
  The handler is installed for four signals (lines 188 to 191), with an empty \<^verbatim>\<open>sa_mask\<close>
  and no flags (line 171). So while it runs for one signal, that signal is blocked and a
  second instance of it stays pending until the handler returns, and each of the other
  three can arrive and run the handler again, between any two of its statements: the test
  of line 180, the log of line 182, the store of line 183. Every other signal keeps the
  action \<^verbatim>\<open>ResetSignals\<close> left it (line 159): it is ignored, or it stops or ends the process
  and with it the run; neither reaches the handler.
\<close>

datatype signal = SigHup | SigInt | SigQuit | SigTerm

fun signo :: "signal \<Rightarrow> int" where
  "signo SigHup = SIGHUP"
| "signo SigInt = SIGINT"
| "signo SigQuit = SIGQUIT"
| "signo SigTerm = SIGTERM"

datatype pc = AtTest | AtLog | AtStore

text \<open>
  The reaper with its handlers: the runs of the handler that have begun and not returned,
  the innermost (the one that executes) first, each with the statement it is at; and the
  blocked signals that are pending.
\<close>

record machine =
  mstate :: reaper
  running :: "(signal \<times> pc) list"
  pending :: "signal list"

text \<open>
  The return of the handler for \<open>s\<close>, the runs below it being \<open>rest\<close>: \<open>s\<close> is unblocked,
  and delivered at once when it is pending.
\<close>

definition handlerReturn :: "signal \<Rightarrow> (signal \<times> pc) list \<Rightarrow> machine \<Rightarrow> machine" where
  "handlerReturn s rest m =
     (if s \<in> set (pending m)
      then m\<lparr>running := (s, AtTest) # rest, pending := removeAll s (pending m)\<rparr>
      else m\<lparr>running := rest\<rparr>)"

text \<open>
  What happens while the main path waits: a signal arrives, or the handler that executes
  goes one statement further.
\<close>

datatype hstep = Arrive signal | Advance

fun handlerStep :: "hstep \<Rightarrow> machine \<Rightarrow> machine" where
  "handlerStep (Arrive s) m =
     (if s \<in> fst ` set (running m) then m\<lparr>pending := List.insert s (pending m)\<rparr>
      else m\<lparr>running := (s, AtTest) # running m\<rparr>)"
| "handlerStep Advance m =
     (case running m of
        [] \<Rightarrow> m
      | (s, AtTest) # rest \<Rightarrow>
          if (signo s = SIGHUP \<or> signo s = SIGINT \<or> signo s = SIGQUIT \<or> signo s = SIGTERM)
             \<and> s_bRun (mstate m)
          then m\<lparr>running := (s, AtLog) # rest\<rparr>
          else handlerReturn s rest m
      | (s, AtLog) # rest \<Rightarrow>
          m\<lparr>mstate := emit (Log shutdownMessage) (mstate m), running := (s, AtStore) # rest\<rparr>
      | (s, AtStore) # rest \<Rightarrow>
          handlerReturn s rest (m\<lparr>mstate := (mstate m)\<lparr>s_bRun := False\<rparr>\<rparr>))"

fun runSchedule :: "hstep list \<Rightarrow> machine \<Rightarrow> machine" where
  "runSchedule [] m = m"
| "runSchedule (x # xs) m = runSchedule xs (handlerStep x m)"

text \<open>
  The main path goes on only when no handler runs: \<open>drain\<close> lets the handlers that have
  begun run to their end. The weight counts the statements they have left.
\<close>

fun pcWeight :: "pc \<Rightarrow> nat" where
  "pcWeight AtTest = 3"
| "pcWeight AtLog = 2"
| "pcWeight AtStore = 1"

definition weight :: "machine \<Rightarrow> nat" where
  "weight m = sum_list (map (\<lambda>run. pcWeight (snd run)) (running m)) + 3 * length (pending m)"

function drain :: "machine \<Rightarrow> machine" where
  "drain m = (if running m = [] then m else drain (handlerStep Advance m))"
  by pat_completeness auto
termination
proof -
  have less: "weight (handlerStep Advance m) < weight m" if "running m \<noteq> []" for m
  proof -
    from that obtain s pc rest where run: "running m = (s, pc) # rest"
      by (cases "running m") auto
    have ret: "weight (handlerReturn s rest m') + 3 \<le> weight (m'\<lparr>running := (s, AtTest) # rest\<rparr>)"
      for m'
      using length_removeAll_less [of s "pending m'"]
      by (auto simp: handlerReturn_def weight_def)
    show ?thesis
    proof (cases pc)
      case AtTest
      with run ret [of m] show ?thesis by (auto simp: weight_def)
    next
      case AtLog
      with run show ?thesis by (simp add: weight_def)
    next
      case AtStore
      with run ret [of "m\<lparr>mstate := (mstate m)\<lparr>s_bRun := False\<rparr>\<rparr>"] show ?thesis
        by (simp add: weight_def)
    qed
  qed
  show ?thesis
    by (relation "measure weight") (simp_all add: less del: handlerStep.simps)
qed

declare drain.simps [simp del]

text \<open>
  One wait of the main path: from no handler running, through the schedule of arrivals and
  handler statements, until every handler has returned.
\<close>

definition runRound :: "hstep list \<Rightarrow> reaper \<Rightarrow> reaper" where
  "runRound schedule st =
     mstate (drain (runSchedule schedule \<lparr>mstate = st, running = [], pending = []\<rparr>))"

subsection \<open>GamescopeReaperProcess\<close>

text \<open>
  \<^verbatim>\<open>getopt_long\<close> belongs to the C library. One call returns 0 and stores the index of
  the table entry it matched, or returns \<^verbatim>\<open>'?'\<close> for an option it does not recognise and
  stores nothing.
\<close>

datatype getopt_ret = LongOption nat | UnknownOption

definition k_ReaperOptions :: "string list" where
  "k_ReaperOptions = [''label'', ''new-session-id'', ''respawn'']"

text \<open>
  How a process ends: \<^verbatim>\<open>return\<close> from \<open>main\<close>, a failed \<^verbatim>\<open>assert\<close>, an exception nothing
  catches, or \<open>Pending\<close>: the run was followed as far as the given rounds describe the
  children and the process goes on.
\<close>

datatype outcome = Exit int | AssertionFailed | Terminated exn | Pending

text \<open>
  The option loop over what the calls of \<^verbatim>\<open>getopt_long\<close> return before -1. The flags are
  \<open>(bRespawn, bNewSession)\<close>; \<open>None\<close> is the failed \<^verbatim>\<open>assert (nOption == 0)\<close>, as in a
  build that keeps its assertions. The index \<^verbatim>\<open>getopt_long\<close> stores is one of the table,
  0, 1 or 2.
\<close>

fun optionLoop :: "getopt_ret list \<Rightarrow> bool \<times> bool \<Rightarrow> reaper \<Rightarrow> (bool \<times> bool) option \<times> reaper" where
  "optionLoop [] flags st = (Some flags, st)"
| "optionLoop (UnknownOption # rest) flags st = (None, emit (Log (Error ''Unknown option.'')) st)"
| "optionLoop (LongOption nOptIndex # rest) (bRespawn, bNewSession) st =
     (let pszOptionName = k_ReaperOptions ! nOptIndex in
      if pszOptionName = ''label'' then optionLoop rest (bRespawn, bNewSession) st
      else if pszOptionName = ''respawn'' then optionLoop rest (True, bNewSession) st
      else if pszOptionName = ''new-session-id'' then optionLoop rest (bRespawn, True) st
      else optionLoop rest (bRespawn, bNewSession) st)"

text \<open>
  The search for the separator, from index \<open>i\<close>: the index after the first \<^verbatim>\<open>--\<close> that
  has an argument behind it, 0 when there is none.
\<close>

function findSubCommand :: "string list \<Rightarrow> nat \<Rightarrow> nat" where
  "findSubCommand argv i =
     (if i < length argv then
        (if argv ! i = ''--'' \<and> i + 1 < length argv then i + 1
         else findSubCommand argv (i + 1))
      else 0)"
  by pat_completeness auto
termination
  by (relation "measure (\<lambda>(argv, i). length argv - i)") auto

declare findSubCommand.simps [simp del]

text \<open>
  The world around one run: what \<^verbatim>\<open>getopt_long\<close> returns, \<^verbatim>\<open>getpid ()\<close>, the process
  table and the number of descriptors free when \<open>KillProcessTree\<close> is called, \<^verbatim>\<open>kill\<close>,
  and one round per call of \<^verbatim>\<open>SpawnProcess\<close>: the value it returns and the schedule of the
  handled signals from then until the \<^verbatim>\<open>WaitForAllChildren\<close> that follows has returned.
  Signals are taken to arrive while the process waits for its children, where it spends
  its time: one that arrives between the check of line 205 and the next spawn counts with
  the round of that spawn.
\<close>

record world =
  getoptReturns :: "getopt_ret list"
  getpid :: pid_t
  procFs :: procfs
  freeFds :: nat
  killReturns :: "pid_t \<Rightarrow> int \<Rightarrow> int"
  rounds :: "(pid_t \<times> hstep list) list"

definition restartMessage :: "string \<Rightarrow> logline" where
  "restartMessage cmd = Info ([CHR 0x22] @ cmd @ [CHR 0x22] @ '' process shut down. Restarting.'')"

definition spawnFailedMessage :: "string \<Rightarrow> logline" where
  "spawnFailedMessage cmd =
     ErrorErrno (''Failed to create child process '' @ [CHR 0x22] @ cmd @ [CHR 0x22] @ '' in reaper.'')"

text \<open>
  \<^verbatim>\<open>while (s_bRun)\<close> (lines 205 to 210). The result is \<open>True\<close> when the loop was left,
  \<open>False\<close> when the rounds ran out at a call of \<^verbatim>\<open>SpawnProcess\<close>. \<open>cmd\<close> is
  \<^verbatim>\<open>&argv[nSubCommandArgc]\<close>, never empty since the index is below \<open>argc\<close>; its head is
  the name the log lines quote.
\<close>

fun respawnLoop :: "string list \<Rightarrow> (pid_t \<times> hstep list) list \<Rightarrow> reaper \<Rightarrow> bool \<times> reaper" where
  "respawnLoop cmd rs st =
     (if s_bRun st then
        (let st1 = emit (Log (restartMessage (hd cmd))) st in
         case rs of
           [] \<Rightarrow> (False, st1)
         | (nPrimaryChild, schedule) # rest \<Rightarrow>
             respawnLoop cmd rest
               (runRound schedule
                  (emit (WaitForAllChildren nPrimaryChild)
                     (emit (SpawnProcess cmd nPrimaryChild) st1))))
      else (True, st))"

declare respawnLoop.simps [simp del]

text \<open>
  The end of both branches: \<^verbatim>\<open>s_bRun = false; KillProcessTree (getpid (), SIGTERM); return code\<close>.
  The SIGTERM the process sends to itself there finds the flag set: its handler does
  nothing.
\<close>

definition shutdown :: "world \<Rightarrow> int \<Rightarrow> reaper \<Rightarrow> outcome \<times> reaper" where
  "shutdown w code st =
     (let st1 = st\<lparr>s_bRun := False\<rparr> in
      case KillProcessTree (freeFds w) (procFs w) (killReturns w) (getpid w) SIGTERM st1 of
        Inl e \<Rightarrow> (Terminated e, st1)
      | Inr st2 \<Rightarrow> (Exit code, st2))"

text \<open>Lines 159 to 194, between the check for a sub-command and the first spawn.\<close>

definition setupReaper :: "bool \<Rightarrow> reaper \<Rightarrow> reaper" where
  "setupReaper bNewSession st =
     (let st1 = emit (CloseAllFds [0, 1, 2]) (emit ResetSignals st);
          st2 = (if bNewSession then emit Setsid st1 else st1);
          st3 = emit (Sigaction SIGTERM) (emit (Sigaction SIGQUIT)
                  (emit (Sigaction SIGINT) (emit (Sigaction SIGHUP) st2)))
      in emit (SetDeathSignal SIGTERM) (emit BecomeSubreaper st3))"

text \<open>
  Lines 196 to 223: the first spawn, the wait, the respawn loop and the end. When the
  first spawn fails the process does not wait and goes to the end at once.
\<close>

definition supervise :: "world \<Rightarrow> bool \<Rightarrow> string list \<Rightarrow> reaper \<Rightarrow> outcome \<times> reaper" where
  "supervise w bRespawn cmd st =
     (case rounds w of
        [] \<Rightarrow> (Pending, st)
      | (nPrimaryChild, schedule) # rest \<Rightarrow>
          (let st1 = emit (SpawnProcess cmd nPrimaryChild) st in
           if nPrimaryChild = 0 then (AssertionFailed, st1)
           else if nPrimaryChild > 0 then
             (let st2 = runRound schedule (emit (WaitForAllChildren nPrimaryChild) st1) in
              if bRespawn then
                (case respawnLoop cmd rest st2 of
                   (False, st3) \<Rightarrow> (Pending, st3)
                 | (True, st3) \<Rightarrow> shutdown w 0 st3)
              else shutdown w 0 st2)
           else shutdown w 1 (emit (Log (spawnFailedMessage (hd cmd))) st1)))"

text \<open>
  The whole function, on the argument vector as \<^verbatim>\<open>getopt_long\<close> leaves it: the one of
  the GNU C library moves the arguments that are no options behind the options and the
  first \<^verbatim>\<open>--\<close>, so that \<^verbatim>\<open>gamescopereaper foo --\<close> is handed back as
  \<^verbatim>\<open>gamescopereaper -- foo\<close>.
\<close>

definition GamescopeReaperProcess :: "world \<Rightarrow> string list \<Rightarrow> outcome \<times> reaper" where
  "GamescopeReaperProcess w argv =
     (let st0 = emit (SetThreadName ''gamescope-reaper'') \<lparr>s_bRun = True, trace = []\<rparr> in
      case optionLoop (getoptReturns w) (False, False) st0 of
        (None, st1) \<Rightarrow> (AssertionFailed, st1)
      | (Some (bRespawn, bNewSession), st1) \<Rightarrow>
          (let nSubCommandArgc = findSubCommand argv 0 in
           if nSubCommandArgc = 0 then (Exit 1, emit (Log (Error ''No sub-command!'')) st1)
           else supervise w bRespawn (drop nSubCommandArgc argv) (setupReaper bNewSession st1)))"

subsection \<open>Reading a trace\<close>

text \<open>
  The calls of \<^verbatim>\<open>SpawnProcess\<close> in a trace, in order, each with the value it returned; and
  the trace of a run up to the first spawn.
\<close>

fun spawned :: "event list \<Rightarrow> (string list \<times> pid_t) list" where
  "spawned [] = []"
| "spawned (SpawnProcess cmd nPrimaryChild # rest) = (cmd, nPrimaryChild) # spawned rest"
| "spawned (ev # rest) = spawned rest"

definition startTrace :: "bool \<Rightarrow> event list" where
  "startTrace bNewSession =
     [SetThreadName ''gamescope-reaper'', ResetSignals, CloseAllFds [0, 1, 2]]
     @ (if bNewSession then [Setsid] else [])
     @ [Sigaction SIGHUP, Sigaction SIGINT, Sigaction SIGQUIT, Sigaction SIGTERM,
        BecomeSubreaper, SetDeathSignal SIGTERM]"

text \<open>
  A round is quiet when none of the four signals arrives in it: the flag, unset before the
  round, is still unset at the check that follows.
\<close>

fun arrival :: "hstep \<Rightarrow> bool" where
  "arrival (Arrive s) = True"
| "arrival Advance = False"

definition quiet :: "pid_t \<times> hstep list \<Rightarrow> bool" where
  "quiet round = (\<not> list_ex arrival (snd round))"

text \<open>An option of the table: \<^verbatim>\<open>--label\<close>, \<^verbatim>\<open>--new-session-id\<close> or \<^verbatim>\<open>--respawn\<close>.\<close>

definition recognised :: "getopt_ret \<Rightarrow> bool" where
  "recognised r = (r = LongOption 0 \<or> r = LongOption 1 \<or> r = LongOption 2)"

subsection \<open>Example inputs\<close>

text \<open>
  Stat lines. Process 10 with the plain name \<^verbatim>\<open>sh\<close>, whose parent is process 5 and whose
  process group is 9. Process 7, a shell that leads its process group: its parent is
  process 1, its process group 7. And two processes whose names hold a closing parenthesis
  and blanks: the first is named \<^verbatim>\<open>a) b c\<close>, the second \<^verbatim>\<open>a) 1 2 3\<close> (its parent is
  process 5).
\<close>

definition groupMember :: dirent where
  "groupMember = \<lparr>d_type = DT_DIR, d_name = ''10'', stat_file = Some ''10 (sh) S 5 9 9 0 -1''\<rparr>"

definition groupLeader :: dirent where
  "groupLeader = \<lparr>d_type = DT_DIR, d_name = ''7'', stat_file = Some ''7 (bash) S 1 7 7 0 -1''\<rparr>"

definition oddName :: dirent where
  "oddName = \<lparr>d_type = DT_DIR, d_name = ''42'', stat_file = Some ''42 (a) b c) S 1 42 42 0 -1''\<rparr>"

definition digitsName :: dirent where
  "digitsName =
     \<lparr>d_type = DT_DIR, d_name = ''77'', stat_file = Some ''77 (a) 1 2 3) S 5 77 77 0 -1''\<rparr>"

text \<open>
  Command lines, as \<^verbatim>\<open>getopt_long\<close> leaves them. \<open>permutedArgv\<close> is what it leaves of
  \<^verbatim>\<open>gamescopereaper foo --\<close>.
\<close>

definition plainArgv :: "string list" where
  "plainArgv = [''gamescopereaper'', ''--'', ''sleep'', ''100'']"

definition respawnArgv :: "string list" where
  "respawnArgv = [''gamescopereaper'', ''--respawn'', ''--'', ''sleep'', ''1'']"

definition bogusArgv :: "string list" where
  "bogusArgv = [''gamescopereaper'', ''--bogus'']"

definition labelArgv :: "string list" where
  "labelArgv = [''gamescopereaper'', ''--label=x'', ''--'', ''sleep'', ''100'']"

definition permutedArgv :: "string list" where
  "permutedArgv = [''gamescopereaper'', ''--'', ''foo'']"

text \<open>
  Worlds; in each the reaper is process 50 and has 1021 descriptors free, what a limit of
  1024 leaves beside the three that \<^verbatim>\<open>CloseAllFds\<close> keeps. In \<open>respawnWorld\<close> three children
  run and exit, the third while SIGINT and then, before its handler has logged, SIGTERM
  arrive; a fourth round is there but never asked for. \<open>onceWorld\<close> is the same without
  \<^verbatim>\<open>--respawn\<close>. In \<open>failedRespawnWorld\<close> the second spawn fails. In \<open>nestedWorld\<close> the
  only child runs while SIGINT and SIGTERM arrive as in \<open>respawnWorld\<close>. In \<open>oddWorld\<close> the
  first spawn fails and the process named \<^verbatim>\<open>a) b c\<close> is in the table. In \<open>bogusWorld\<close>
  \<^verbatim>\<open>getopt_long\<close> meets an option it does not know.
\<close>

definition respawnWorld :: world where
  "respawnWorld =
     \<lparr>getoptReturns = [LongOption 2], getpid = 50, procFs = Some [], freeFds = 1021,
      killReturns = (\<lambda>pid signal. 0),
      rounds = [(100, []), (101, [Advance]), (102, [Arrive SigInt, Advance, Arrive SigTerm]),
                (103, [])]\<rparr>"

definition onceWorld :: world where
  "onceWorld =
     \<lparr>getoptReturns = [LongOption 0], getpid = 50, procFs = Some [], freeFds = 1021,
      killReturns = (\<lambda>pid signal. 0),
      rounds = [(100, []), (101, [Advance]), (102, [Arrive SigInt, Advance, Arrive SigTerm]),
                (103, [])]\<rparr>"

definition failedRespawnWorld :: world where
  "failedRespawnWorld =
     \<lparr>getoptReturns = [LongOption 2], getpid = 50, procFs = Some [], freeFds = 1021,
      killReturns = (\<lambda>pid signal. 0),
      rounds = [(100, []), (- 1, []), (101, [Arrive SigTerm])]\<rparr>"

definition nestedWorld :: world where
  "nestedWorld =
     \<lparr>getoptReturns = [], getpid = 50, procFs = Some [], freeFds = 1021,
      killReturns = (\<lambda>pid signal. 0),
      rounds = [(100, [Arrive SigInt, Advance, Arrive SigTerm])]\<rparr>"

definition oddWorld :: world where
  "oddWorld =
     \<lparr>getoptReturns = [], getpid = 50, procFs = Some [oddName], freeFds = 1021,
      killReturns = (\<lambda>pid signal. 0), rounds = [(- 1, [])]\<rparr>"

definition bogusWorld :: world where
  "bogusWorld =
     \<lparr>getoptReturns = [UnknownOption], getpid = 50, procFs = Some [], freeFds = 1021,
      killReturns = (\<lambda>pid signal. 0), rounds = [(100, [])]\<rparr>"

definition permutedWorld :: world where
  "permutedWorld =
     \<lparr>getoptReturns = [], getpid = 50, procFs = Some [], freeFds = 1021,
      killReturns = (\<lambda>pid signal. 0), rounds = [(100, [])]\<rparr>"

section \<open>Properties\<close>

subsection \<open>Evaluating the scanner\<close>

lemmas scan_defs = scanEntry_def DT_DIR_def atoi_def strtol10_def isspace_def isdigit_def
  digitVal_def getline_def find_char_def substr_def stoi_def tokenLoop.simps

lemma scan_oddName: "scanEntry oddName = Inl InvalidArgument"
  by (simp add: oddName_def scan_defs)

lemma scan_groupMember: "scanEntry groupMember = Inr (Some (10, 9))"
  by (simp add: groupMember_def scan_defs)

lemma scan_groupLeader: "scanEntry groupLeader = Inr (Some (7, 7))"
  by (simp add: groupLeader_def scan_defs)

lemma scan_unopened: "scanEntry (entry\<lparr>stat_file := None\<rparr>) = Inr None"
  by (simp add: scanEntry_def Let_def)

lemma readdirLoop_Nil: "readdirLoop free procDir [] parentPid childPids = Inr childPids"
  by (subst readdirLoop.simps) simp

lemma readdirLoop_Cons:
  "readdirLoop free procDir (entry # rest) parentPid childPids =
     (case scanEntry (openStat free entry) of
        Inl e \<Rightarrow> Inl e
      | Inr None \<Rightarrow> readdirLoop free procDir rest parentPid childPids
      | Inr (Some (pid, ppid)) \<Rightarrow>
          if ppid = parentPid then
            (case readdirLoop (free - 1) procDir procDir pid [] of
               Inl e \<Rightarrow> Inl e
             | Inr grandChildren \<Rightarrow>
                 readdirLoop free procDir rest parentPid (childPids @ [pid] @ grandChildren))
          else readdirLoop free procDir rest parentPid childPids)"
  by (subst readdirLoop.simps) simp

lemma readdirLoop_groupLeader:
  "readdirLoop n [groupLeader] [groupLeader] 7 [] = Inr (replicate n 7)"
proof (induction n)
  case 0
  show ?case
    by (simp add: readdirLoop_Cons readdirLoop_Nil openStat_def scan_unopened)
next
  case (Suc n)
  then show ?case
    by (simp add: readdirLoop_Cons [of "Suc n"] readdirLoop_Nil openStat_def scan_groupLeader)
qed

lemma readdirLoop_oddName:
  "0 < free \<Longrightarrow> readdirLoop free [oddName] [oddName] R [] = Inl InvalidArgument"
  by (simp add: readdirLoop_Cons openStat_def scan_oddName)

lemma readdirLoop_groupMember_5:
  "readdirLoop free [groupMember] [groupMember] 5 [] = Inr []"
  by (simp add: readdirLoop_Cons readdirLoop_Nil openStat_def scan_groupMember scan_unopened)

lemma readdirLoop_groupMember_10:
  "readdirLoop free [groupMember] [groupMember] 10 [] = Inr []"
  by (simp add: readdirLoop_Cons readdirLoop_Nil openStat_def scan_groupMember scan_unopened)

lemma readdirLoop_groupMember_9:
  "0 < free \<Longrightarrow> readdirLoop free [groupMember] [groupMember] 9 [] = Inr [10]"
  by (simp add: readdirLoop_Cons [of free] readdirLoop_Nil readdirLoop_groupMember_10 openStat_def
        scan_groupMember)

subsection \<open>What GetChildPIDs returns\<close>

text \<open>
  C1: for every process table and every root, \<open>GetChildPIDs\<close> returns exactly the
  descendants of the root, the root not among them. The code compares the root with the
  third token behind the \<^verbatim>\<open>)\<close> of a stat line, which is the process group, not the parent
  (C2). So with process 10 in the table, whose parent is process 5 and whose process group
  is 9, the call for root 5 returns nothing and the call for root 9 returns process 10,
  which is no descendant of process 9. And with process 7 in the table, which leads its
  process group as every shell started from a terminal does, the call for root 7 finds 7
  as a child of 7, again and again: every level of the recursion keeps \<^verbatim>\<open>/proc\<close> open, and
  the call returns when the descriptors have run out, with the root itself in the vector
  once for every level (1020 times from 1021 free descriptors).
\<close>

theorem GetChildPIDs_compares_process_group:
  "GetChildPIDs (Suc (Suc free)) (Some [groupMember]) 5 = Inr ([], []) \<and>
   GetChildPIDs (Suc (Suc free)) (Some [groupMember]) 9 = Inr ([], [10]) \<and>
   GetChildPIDs (Suc n) (Some [groupLeader]) 7 = Inr ([], replicate n 7)"
  by (simp add: GetChildPIDs_def readdirLoop_groupMember_5 readdirLoop_groupMember_9
        readdirLoop_groupLeader)

text \<open>
  C5: the enumeration never throws; an unreadable or malformed entry is skipped. The code
  skips an entry it cannot open and a line without parentheses, but converts the third
  token behind the first \<^verbatim>\<open>)\<close> with \<^verbatim>\<open>std::stoi\<close> and catches nothing: with a process
  named \<^verbatim>\<open>a) b c\<close> in the table that token is \<^verbatim>\<open>S\<close>, and the call ends in
  \<^verbatim>\<open>std::invalid_argument\<close> whatever the root, as soon as it has the two descriptors it
  takes to read a stat file.
\<close>

theorem GetChildPIDs_throws_on_odd_name:
  "GetChildPIDs (Suc (Suc free)) (Some [oddName]) R = Inl InvalidArgument"
  by (simp add: GetChildPIDs_def readdirLoop_oddName)

text \<open>
  C2: the scanner locates the last \<^verbatim>\<open>)\<close> of the name and reads the parent behind it.
  The code searches the first \<^verbatim>\<open>)\<close> from the first \<^verbatim>\<open>(\<close> on. For the process 77 named
  \<^verbatim>\<open>a) 1 2 3\<close>, a child of process 5, it stops at index 5 (the last \<^verbatim>\<open>)\<close> is at index 12)
  and reads the parent out of the name: 3. And behind the parenthesis it takes the third
  token, which in a stat line is the process group: for process 10 with the plain name
  \<^verbatim>\<open>sh\<close>, parent 5 and process group 9, it reads 9.
\<close>

theorem scanEntry_stops_at_first_paren:
  "find_char ''77 (a) 1 2 3) S 5 77 77 0 -1'' (CHR '')'')
     (find_char ''77 (a) 1 2 3) S 5 77 77 0 -1'' (CHR ''('') (Some 0)) = Some 5 \<and>
   scanEntry digitsName = Inr (Some (77, 3)) \<and>
   scanEntry groupMember = Inr (Some (10, 9))"
  by (simp add: digitsName_def groupMember_def scan_defs)

subsection \<open>KillProcessTree\<close>

lemma trace_killLoop:
  "trace (killLoop k childPids signal st) =
     trace st @ map (\<lambda>childPid. Kill childPid signal (k childPid signal)) childPids"
  by (induction childPids arbitrary: st) (simp_all add: emit_def)

text \<open>
  C3: \<open>KillProcessTree\<close> sends the signal to every descendant of the root and then to the
  root, and never throws. It sends the signal to what \<open>GetChildPIDs\<close> returns and has no
  handler around that call. So with process 10 in the table, a child of the root 5 in the
  process group 9, the only signal sent is the one to the root (C2: the scanner compares
  the process group); and with the process named \<^verbatim>\<open>a) b c\<close> in the table the exception of
  C5 leaves \<open>KillProcessTree\<close> too, before any signal is sent, the root's included.
\<close>

theorem KillProcessTree_misses_child_and_throws:
  "KillProcessTree (Suc (Suc free)) (Some [groupMember]) k 5 signal st =
     Inr (st\<lparr>trace := trace st @ [Kill 5 signal (k 5 signal)]\<rparr>) \<and>
   KillProcessTree (Suc (Suc free)) (Some [oddName]) k R signal st = Inl InvalidArgument"
  by (simp add: KillProcessTree_def GetChildPIDs_def readdirLoop_groupMember_5 readdirLoop_oddName
        emit_def)

subsection \<open>The signal handler\<close>

lemma drain_idle: "running m = [] \<Longrightarrow> drain m = m"
  by (subst drain.simps) simp

lemma drain_step: "running m \<noteq> [] \<Longrightarrow> drain m = drain (handlerStep Advance m)"
  by (subst drain.simps) simp

lemma runRound_Nil: "runRound [] st = st"
  by (simp add: runRound_def drain_idle)

text \<open>A handler that nothing interrupts does what the function does when read in one go.\<close>

lemma runRound_uninterrupted: "runRound [Arrive s] st = reaperSignalHandler (signo s) st"
  by (cases s; cases "s_bRun st")
     (simp_all add: runRound_def drain.simps handlerReturn_def reaperSignalHandler_def emit_def
        SIGHUP_def SIGINT_def SIGQUIT_def SIGTERM_def)

text \<open>Once set, the flag stays set.\<close>

lemma ShutdownFlag_handlerStep:
  "ShutdownFlag (mstate m) \<Longrightarrow> ShutdownFlag (mstate (handlerStep x m))"
  by (cases x)
     (auto simp: ShutdownFlag_def handlerReturn_def emit_def split: list.splits prod.splits pc.splits)

lemma signo_handled:
  "signo s = SIGHUP \<or> signo s = SIGINT \<or> signo s = SIGQUIT \<or> signo s = SIGTERM"
  by (cases s) simp_all

lemma busy_handlerStep:
  "running m \<noteq> [] \<or> \<not> s_bRun (mstate m) \<Longrightarrow>
     running (handlerStep x m) \<noteq> [] \<or> \<not> s_bRun (mstate (handlerStep x m))"
  using signo_handled
  by (cases x)
     (auto simp: handlerReturn_def emit_def split: list.splits prod.splits pc.splits)

lemma busy_drain:
  "running m \<noteq> [] \<or> \<not> s_bRun (mstate m) \<Longrightarrow> \<not> s_bRun (mstate (drain m))"
proof (induction m rule: drain.induct)
  case (1 m)
  show ?case
  proof (cases "running m = []")
    case True
    with "1.prems" show ?thesis by (simp add: drain_idle)
  next
    case False
    have "\<not> s_bRun (mstate (drain (handlerStep Advance m)))"
      using False "1.prems" by (intro "1.IH" busy_handlerStep)
    with False show ?thesis by (simp add: drain_step del: handlerStep.simps)
  qed
qed

lemma busy_Arrive: "running (handlerStep (Arrive s) m) \<noteq> []"
  by auto

lemma busy_runSchedule:
  "running m \<noteq> [] \<or> \<not> s_bRun (mstate m) \<or> list_ex arrival xs \<Longrightarrow>
     running (runSchedule xs m) \<noteq> [] \<or> \<not> s_bRun (mstate (runSchedule xs m))"
proof (induction xs arbitrary: m)
  case Nil
  then show ?case by simp
next
  case (Cons x xs)
  have "running (handlerStep x m) \<noteq> [] \<or> \<not> s_bRun (mstate (handlerStep x m)) \<or> list_ex arrival xs"
  proof (cases x)
    case (Arrive s)
    then show ?thesis using busy_Arrive [of s m] by simp
  next
    case Advance
    with Cons.prems busy_handlerStep [of m Advance] show ?thesis
      by (auto simp del: handlerStep.simps)
  qed
  then show ?case
    using Cons.IH [of "handlerStep x m"] by (simp del: handlerStep.simps)
qed

lemma idle_runSchedule: "running m = [] \<Longrightarrow> \<not> list_ex arrival xs \<Longrightarrow> runSchedule xs m = m"
proof (induction xs)
  case Nil
  show ?case by simp
next
  case (Cons x xs)
  then show ?case by (cases x) simp_all
qed

lemma runRound_quiet: "\<not> list_ex arrival schedule \<Longrightarrow> runRound schedule st = st"
  by (simp add: runRound_def idle_runSchedule drain_idle)

lemma s_bRun_runRound:
  "s_bRun (runRound schedule st) = (s_bRun st \<and> \<not> list_ex arrival schedule)"
proof (cases "list_ex arrival schedule")
  case False
  then show ?thesis by (simp add: runRound_quiet)
next
  case True
  then have "\<not> s_bRun (runRound schedule st)"
    unfolding runRound_def by (intro busy_drain busy_runSchedule) simp
  with True show ?thesis by simp
qed

lemma spawned_append: "spawned (xs @ ys) = spawned xs @ spawned ys"
  by (induction xs rule: spawned.induct) simp_all

lemma spawned_handlerStep:
  "spawned (trace (mstate (handlerStep x m))) = spawned (trace (mstate m))"
  by (cases x)
     (auto simp: handlerReturn_def emit_def spawned_append split: list.splits prod.splits pc.splits)

lemma spawned_runSchedule:
  "spawned (trace (mstate (runSchedule xs m))) = spawned (trace (mstate m))"
  by (induction xs arbitrary: m) (simp_all add: spawned_handlerStep del: handlerStep.simps)

lemma spawned_drain: "spawned (trace (mstate (drain m))) = spawned (trace (mstate m))"
proof (induction m rule: drain.induct)
  case (1 m)
  show ?case
  proof (cases "running m = []")
    case True
    then show ?thesis by (simp add: drain_idle)
  next
    case False
    with 1 show ?thesis by (simp add: drain_step spawned_handlerStep del: handlerStep.simps)
  qed
qed

lemma spawned_runRound: "spawned (trace (runRound schedule st)) = spawned (trace st)"
  by (simp add: runRound_def spawned_drain spawned_runSchedule)

text \<open>
  SIGINT arrives; its handler finds \<open>s_bRun\<close> true at line 180; before it has logged and
  stored, SIGTERM arrives and its handler finds \<open>s_bRun\<close> true as well.
\<close>

lemma runRound_nested:
  "s_bRun st \<Longrightarrow>
     runRound [Arrive SigInt, Advance, Arrive SigTerm] st =
       st\<lparr>s_bRun := False, trace := trace st @ [Log shutdownMessage, Log shutdownMessage]\<rparr>"
  by (simp add: runRound_def drain.simps handlerReturn_def emit_def
        SIGHUP_def SIGINT_def SIGQUIT_def SIGTERM_def)

subsection \<open>Options, separator and traces\<close>

lemma optionLoop_recognised:
  "list_all recognised rets \<Longrightarrow>
     optionLoop rets (bRespawn, bNewSession) st =
       (Some (bRespawn \<or> LongOption 2 \<in> set rets, bNewSession \<or> LongOption 1 \<in> set rets), st)"
  by (induction rets "(bRespawn, bNewSession)" st arbitrary: bRespawn bNewSession rule: optionLoop.induct)
     (auto simp: Let_def recognised_def k_ReaperOptions_def)

lemma findSubCommand_0:
  "findSubCommand argv i = 0 \<longleftrightarrow> \<not> (\<exists>j\<ge>i. argv ! j = ''--'' \<and> j + 1 < length argv)"
proof (induction argv i rule: findSubCommand.induct)
  case (1 argv i)
  show ?case
  proof (cases "i < length argv")
    case False
    then show ?thesis by (subst findSubCommand.simps) auto
  next
    case True
    show ?thesis
    proof (cases "argv ! i = ''--'' \<and> i + 1 < length argv")
      case yes: True
      with True have "findSubCommand argv i = i + 1"
        by (subst findSubCommand.simps) simp
      with yes show ?thesis by auto
    next
      case no: False
      with True have "findSubCommand argv i = findSubCommand argv (i + 1)"
        by (subst findSubCommand.simps) auto
      also have "\<dots> = 0 \<longleftrightarrow> \<not> (\<exists>j\<ge>i + 1. argv ! j = ''--'' \<and> j + 1 < length argv)"
        using 1 True no by blast
      also have "\<dots> \<longleftrightarrow> \<not> (\<exists>j\<ge>i. argv ! j = ''--'' \<and> j + 1 < length argv)"
        using no by (metis Suc_eq_plus1 Suc_leD Suc_leI le_neq_implies_less)
      finally show ?thesis .
    qed
  qed
qed

lemma trace_emit: "trace (emit ev st) = trace st @ [ev]"
  by (simp add: emit_def)

lemma s_bRun_emit: "s_bRun (emit ev st) = s_bRun st"
  by (simp add: emit_def)

lemma respawnLoop_stopped: "\<not> s_bRun st \<Longrightarrow> respawnLoop cmd rs st = (True, st)"
  by (subst respawnLoop.simps) simp

lemma respawnLoop_Nil:
  "s_bRun st \<Longrightarrow> respawnLoop cmd [] st = (False, emit (Log (restartMessage (hd cmd))) st)"
  by (subst respawnLoop.simps) simp

lemma respawnLoop_Cons:
  "s_bRun st \<Longrightarrow>
     respawnLoop cmd ((p, schedule) # rest) st =
       respawnLoop cmd rest
         (runRound schedule (emit (WaitForAllChildren p) (emit (SpawnProcess cmd p)
            (emit (Log (restartMessage (hd cmd))) st))))"
  by (subst respawnLoop.simps) simp

lemma spawned_respawnLoop:
  "spawned (trace (snd (respawnLoop cmd rs st))) =
     spawned (trace st) @
       (if s_bRun st then map (\<lambda>round. (cmd, fst round)) (take (Suc (length (takeWhile quiet rs))) rs)
        else [])"
proof (induction rs arbitrary: st)
  case Nil
  show ?case
    by (cases "s_bRun st") (simp_all add: respawnLoop_stopped respawnLoop_Nil trace_emit spawned_append)
next
  case (Cons r rs)
  obtain p schedule where r: "r = (p, schedule)" by (cases r)
  show ?case
  proof (cases "s_bRun st")
    case False
    then show ?thesis by (simp add: respawnLoop_stopped)
  next
    case True
    then show ?thesis
      by (simp add: r respawnLoop_Cons Cons.IH trace_emit s_bRun_emit spawned_append
            spawned_runRound s_bRun_runRound quiet_def)
  qed
qed

lemma spawned_Log: "spawned (map Log ls) = []"
  by (induction ls) simp_all

lemma spawned_Kill: "spawned (map (\<lambda>c. Kill c signal (k c signal)) cs) = []"
  by (induction cs) simp_all

lemma spawned_shutdown: "spawned (trace (snd (shutdown w code st))) = spawned (trace st)"
  by (auto simp: shutdown_def KillProcessTree_def trace_killLoop emit_def spawned_append
        spawned_Log spawned_Kill Let_def
      split: sum.splits prod.splits)

lemma spawned_setupReaper: "spawned (trace (setupReaper b st)) = spawned (trace st)"
  by (simp add: setupReaper_def emit_def spawned_append Let_def)

lemma s_bRun_setupReaper: "s_bRun (setupReaper b st) = s_bRun st"
  by (simp add: setupReaper_def emit_def Let_def)

lemma separator_found:
  "(\<exists>i. argv ! i = ''--'' \<and> i + 1 < length argv) \<longleftrightarrow> findSubCommand argv 0 \<noteq> 0"
  using findSubCommand_0 [of argv 0] by simp

lemma GamescopeReaperProcess_supervise:
  assumes "list_all recognised (getoptReturns w)"
    and "\<exists>i. argv ! i = ''--'' \<and> i + 1 < length argv"
  shows "GamescopeReaperProcess w argv =
           supervise w (LongOption 2 \<in> set (getoptReturns w)) (drop (findSubCommand argv 0) argv)
             (setupReaper (LongOption 1 \<in> set (getoptReturns w))
                (emit (SetThreadName ''gamescope-reaper'') \<lparr>s_bRun = True, trace = []\<rparr>))"
  using assms(2) unfolding separator_found
  by (simp add: GamescopeReaperProcess_def optionLoop_recognised [OF assms(1)])

lemma findSubCommand_respawnArgv: "findSubCommand respawnArgv 0 = 3"
  by (simp add: respawnArgv_def findSubCommand.simps)

lemma findSubCommand_labelArgv: "findSubCommand labelArgv 0 = 3"
  by (simp add: labelArgv_def findSubCommand.simps)

lemma GetChildPIDs_empty: "0 < free \<Longrightarrow> GetChildPIDs free (Some []) pid = Inr ([], [])"
  by (simp add: GetChildPIDs_def readdirLoop_Nil)

subsection \<open>The shutdown message\<close>

text \<open>
  C4: the flag goes from unset to set at most once; the first delivery of a terminating
  signal logs exactly one shutdown message, and no later delivery logs anything. The flag
  never goes back (\<open>ShutdownFlag_handlerStep\<close>), and a handler that is not interrupted logs
  once and sets the flag (\<open>runRound_uninterrupted\<close>). But the handlers are installed with an
  empty \<^verbatim>\<open>sa_mask\<close>, and the handler tests the flag at line 180 and sets it at line 183,
  after the log: when SIGINT arrives and, before its handler has logged, SIGTERM, the
  later delivery finds the flag unset too, and the shutdown message is logged twice. The
  second part is a whole run of \<^verbatim>\<open>gamescopereaper -- sleep 100\<close> in which this happens while
  the child runs.
\<close>

theorem second_signal_logs_again:
  "runRound [Arrive SigInt, Advance, Arrive SigTerm] \<lparr>s_bRun = True, trace = []\<rparr> =
     \<lparr>s_bRun = False, trace = [Log shutdownMessage, Log shutdownMessage]\<rparr> \<and>
   GamescopeReaperProcess nestedWorld plainArgv =
     (Exit 0,
      \<lparr>s_bRun = False,
       trace = startTrace False @
         [SpawnProcess [''sleep'', ''100''] 100, WaitForAllChildren 100,
          Log shutdownMessage, Log shutdownMessage,
          Kill 50 SIGTERM 0]\<rparr>)"
  by (simp add: runRound_nested GamescopeReaperProcess_def nestedWorld_def findSubCommand.simps
        plainArgv_def emit_def setupReaper_def supervise_def startTrace_def shutdown_def
        KillProcessTree_def GetChildPIDs_empty)

subsection \<open>Configuration errors\<close>

text \<open>
  C10: an unrecognised option is reported and the process exits with status 1. The code
  logs \<^verbatim>\<open>Unknown option.\<close> and goes on to \<^verbatim>\<open>assert (nOption == 0)\<close>, which fails: the
  process is aborted, it does not return 1. (No child is spawned, as the claim says.)
\<close>

theorem unknown_option_aborts:
  "GamescopeReaperProcess (w\<lparr>getoptReturns := [UnknownOption]\<rparr>) argv =
     (AssertionFailed,
      \<lparr>s_bRun = True,
       trace = [SetThreadName ''gamescope-reaper'', Log (Error ''Unknown option.'')]\<rparr>)"
  by (simp add: GamescopeReaperProcess_def emit_def)

text \<open>
  C9: with no \<^verbatim>\<open>--\<close> that has an argument behind it the process logs an error and exits
  with status 1, and spawns no child. The option loop runs before the search for the
  separator: on the command line \<^verbatim>\<open>gamescopereaper --bogus\<close>, in which the search finds
  nothing, the process is aborted by the assertion of C10 and never returns 1. And the
  search runs on the vector as \<^verbatim>\<open>getopt_long\<close> has left it: of
  \<^verbatim>\<open>gamescopereaper foo --\<close>, where nothing follows the \<^verbatim>\<open>--\<close>, the C library makes
  \<^verbatim>\<open>gamescopereaper -- foo\<close>, on which the search finds the sub-command \<^verbatim>\<open>foo\<close>, and the
  process spawns it.
\<close>

theorem no_subcommand_aborts_or_spawns:
  "findSubCommand bogusArgv 0 = 0 \<and>
   GamescopeReaperProcess bogusWorld bogusArgv =
     (AssertionFailed,
      \<lparr>s_bRun = True,
       trace = [SetThreadName ''gamescope-reaper'', Log (Error ''Unknown option.'')]\<rparr>) \<and>
   GamescopeReaperProcess permutedWorld permutedArgv =
     (Exit 0,
      \<lparr>s_bRun = False,
       trace = startTrace False @
         [SpawnProcess [''foo''] 100, WaitForAllChildren 100, Kill 50 SIGTERM 0]\<rparr>)"
  by (simp add: bogusArgv_def GamescopeReaperProcess_def bogusWorld_def
        permutedWorld_def findSubCommand.simps permutedArgv_def emit_def setupReaper_def
        supervise_def startTrace_def shutdown_def KillProcessTree_def GetChildPIDs_empty
        runRound_Nil)

subsection \<open>The supervision loop\<close>

lemma spawned_supervise:
  assumes "rounds w = (p0, schedule0) # rest" and "0 < p0" and "s_bRun st"
  shows "spawned (trace (snd (supervise w bRespawn cmd st))) =
           spawned (trace st) @
             (if bRespawn
              then map (\<lambda>round. (cmd, fst round))
                     (take (Suc (length (takeWhile quiet (rounds w)))) (rounds w))
              else [(cmd, p0)])"
proof (cases bRespawn)
  case False
  with assms show ?thesis
    by (simp add: supervise_def spawned_shutdown spawned_runRound trace_emit spawned_append)
next
  case True
  define st2 where
    "st2 = runRound schedule0 (emit (WaitForAllChildren p0) (emit (SpawnProcess cmd p0) st))"
  obtain left st3 where loop: "respawnLoop cmd rest st2 = (left, st3)"
    by (cases "respawnLoop cmd rest st2")
  have st2: "spawned (trace st2) = spawned (trace st) @ [(cmd, p0)]"
    "s_bRun st2 = (\<not> list_ex arrival schedule0)"
    by (simp_all add: st2_def spawned_runRound trace_emit spawned_append s_bRun_runRound
          s_bRun_emit assms(3))
  have st3: "spawned (trace st3) =
          spawned (trace st) @ [(cmd, p0)] @
            (if \<not> list_ex arrival schedule0
             then map (\<lambda>round. (cmd, fst round)) (take (Suc (length (takeWhile quiet rest))) rest)
             else [])"
    using spawned_respawnLoop [of cmd rest st2] by (simp add: loop st2)
  have rounds_w: "take (Suc (length (takeWhile quiet (rounds w)))) (rounds w) =
      (p0, schedule0) # (if \<not> list_ex arrival schedule0
                        then take (Suc (length (takeWhile quiet rest))) rest else [])"
    by (simp add: assms(1) quiet_def)
  have "spawned (trace (snd (supervise w bRespawn cmd st))) = spawned (trace st3)"
    using True assms(1,2) loop
    by (cases left) (simp_all add: supervise_def st2_def [symmetric] spawned_shutdown)
  with st3 rounds_w True show ?thesis
    by simp
qed

text \<open>
  C6: on a command line whose options are all of the table and which has a separator with
  a sub-command behind it, when every spawn succeeds and every child exits: without
  \<^verbatim>\<open>--respawn\<close> the command is spawned exactly once; with \<^verbatim>\<open>--respawn\<close> it is spawned
  once per round, as long as every round before was quiet, that is, as long as the flag
  was still unset at the check behind it: the rounds spawned are the quiet ones at the
  front and the first one in which one of the four signals arrives (all of them when all
  are quiet). This holds however the handlers of a round interrupt one another.
\<close>

theorem respawn_spawns_until_shutdown:
  assumes "list_all recognised (getoptReturns w)"
    and "\<exists>i. argv ! i = ''--'' \<and> i + 1 < length argv"
    and "rounds w \<noteq> []"
    and "list_all (\<lambda>round. 0 < fst round) (rounds w)"
  shows "(LongOption 2 \<in> set (getoptReturns w) \<longrightarrow>
            spawned (trace (snd (GamescopeReaperProcess w argv))) =
              map (\<lambda>round. (drop (findSubCommand argv 0) argv, fst round))
                (take (Suc (length (takeWhile quiet (rounds w)))) (rounds w))) \<and>
         (LongOption 2 \<notin> set (getoptReturns w) \<longrightarrow>
            spawned (trace (snd (GamescopeReaperProcess w argv))) =
              [(drop (findSubCommand argv 0) argv, fst (hd (rounds w)))])"
proof -
  from assms(3) obtain p0 schedule0 rest where rs: "rounds w = (p0, schedule0) # rest"
    by (cases "rounds w") auto
  with assms(4) have pos: "0 < p0" by simp
  show ?thesis
    by (simp add: GamescopeReaperProcess_supervise [OF assms(1,2)]
          spawned_supervise [OF rs pos] s_bRun_setupReaper s_bRun_emit
          spawned_setupReaper trace_emit rs)
qed

theorem respawn_spawns_until_shutdown_witness:
  "list_all recognised (getoptReturns respawnWorld) \<and>
   (\<exists>i. respawnArgv ! i = ''--'' \<and> i + 1 < length respawnArgv) \<and>
   rounds respawnWorld \<noteq> [] \<and>
   list_all (\<lambda>round. 0 < fst round) (rounds respawnWorld) \<and>
   LongOption 2 \<in> set (getoptReturns respawnWorld) \<and>
   spawned (trace (snd (GamescopeReaperProcess respawnWorld respawnArgv))) =
     [([''sleep'', ''1''], 100), ([''sleep'', ''1''], 101), ([''sleep'', ''1''], 102)] \<and>
   list_all recognised (getoptReturns onceWorld) \<and>
   (\<exists>i. labelArgv ! i = ''--'' \<and> i + 1 < length labelArgv) \<and>
   rounds onceWorld \<noteq> [] \<and>
   list_all (\<lambda>round. 0 < fst round) (rounds onceWorld) \<and>
   LongOption 2 \<notin> set (getoptReturns onceWorld) \<and>
   spawned (trace (snd (GamescopeReaperProcess onceWorld labelArgv))) = [([''sleep'', ''100''], 100)]"
proof -
  have opts: "list_all recognised (getoptReturns respawnWorld)"
    "list_all recognised (getoptReturns onceWorld)"
    by (simp_all add: respawnWorld_def onceWorld_def recognised_def)
  have sep: "\<exists>i. respawnArgv ! i = ''--'' \<and> i + 1 < length respawnArgv"
    "\<exists>i. labelArgv ! i = ''--'' \<and> i + 1 < length labelArgv"
    unfolding separator_found
    by (simp_all add: findSubCommand_respawnArgv findSubCommand_labelArgv)
  have ne: "rounds respawnWorld \<noteq> []" "rounds onceWorld \<noteq> []"
    by (simp_all add: respawnWorld_def onceWorld_def)
  have pos: "list_all (\<lambda>round. 0 < fst round) (rounds respawnWorld)"
    "list_all (\<lambda>round. 0 < fst round) (rounds onceWorld)"
    by (simp_all add: respawnWorld_def onceWorld_def)
  have flag: "LongOption 2 \<in> set (getoptReturns respawnWorld)"
    "LongOption 2 \<notin> set (getoptReturns onceWorld)"
    by (simp_all add: respawnWorld_def onceWorld_def)
  have rs: "rounds respawnWorld =
      [(100, []), (101, [Advance]), (102, [Arrive SigInt, Advance, Arrive SigTerm]), (103, [])]"
    "rounds onceWorld =
      [(100, []), (101, [Advance]), (102, [Arrive SigInt, Advance, Arrive SigTerm]), (103, [])]"
    by (simp_all add: respawnWorld_def onceWorld_def)
  have "spawned (trace (snd (GamescopeReaperProcess respawnWorld respawnArgv))) =
     [([''sleep'', ''1''], 100), ([''sleep'', ''1''], 101), ([''sleep'', ''1''], 102)]"
    using respawn_spawns_until_shutdown [OF opts(1) sep(1) ne(1) pos(1)] flag(1)
    by (simp add: rs(1) quiet_def findSubCommand.simps respawnArgv_def)
  moreover have "spawned (trace (snd (GamescopeReaperProcess onceWorld labelArgv))) =
      [([''sleep'', ''100''], 100)]"
    using respawn_spawns_until_shutdown [OF opts(2) sep(2) ne(2) pos(2)] flag(2)
    by (simp add: rs(2) findSubCommand.simps labelArgv_def)
  ultimately show ?thesis
    using opts sep ne pos flag by simp
qed

text \<open>
  C7: a spawn failure ends the loop, also with \<^verbatim>\<open>--respawn\<close>. Inside the respawn loop
  the value \<^verbatim>\<open>SpawnProcess\<close> returns is not looked at (the first spawn is checked): when
  the second spawn fails the loop logs no failure, waits for -1, finds the flag unset and
  spawns a third time.
\<close>

theorem respawn_goes_on_after_spawn_failure:
  "GamescopeReaperProcess failedRespawnWorld respawnArgv =
     (Exit 0,
      \<lparr>s_bRun = False,
       trace = startTrace False @
         [SpawnProcess [''sleep'', ''1''] 100, WaitForAllChildren 100,
          Log (restartMessage ''sleep''),
          SpawnProcess [''sleep'', ''1''] (- 1), WaitForAllChildren (- 1),
          Log (restartMessage ''sleep''),
          SpawnProcess [''sleep'', ''1''] 101, WaitForAllChildren 101,
          Log shutdownMessage,
          Kill 50 SIGTERM 0]\<rparr>)"
  by (simp add: GamescopeReaperProcess_def failedRespawnWorld_def findSubCommand.simps
        respawnArgv_def emit_def k_ReaperOptions_def setupReaper_def supervise_def startTrace_def
        respawnLoop.simps shutdown_def KillProcessTree_def GetChildPIDs_empty
        runRound_Nil runRound_uninterrupted
        reaperSignalHandler_def SIGTERM_def SIGHUP_def SIGINT_def SIGQUIT_def)

subsection \<open>The end of a run\<close>

text \<open>
  C8: when the first spawn fails the process logs the failure, sets the flag, calls
  \<open>KillProcessTree\<close> on its own pid and exits with status 1. The code does the first three,
  and \<^verbatim>\<open>return 1\<close> comes after \<open>KillProcessTree\<close>, around which there is no handler: with
  the process named \<^verbatim>\<open>a) b c\<close> in the table its scan throws (C5), and the process ends by
  the exception, with the flag set, no signal sent and no exit status 1.
\<close>

theorem spawn_failure_scan_throws:
  "GamescopeReaperProcess oddWorld plainArgv =
     (Terminated InvalidArgument,
      \<lparr>s_bRun = False,
       trace = startTrace False @
         [SpawnProcess [''sleep'', ''100''] (- 1), Log (spawnFailedMessage ''sleep'')]\<rparr>)"
  by (simp add: GamescopeReaperProcess_def oddWorld_def findSubCommand.simps plainArgv_def
        emit_def setupReaper_def supervise_def startTrace_def shutdown_def KillProcessTree_def
        GetChildPIDs_def readdirLoop_oddName)

end
